theory Spec2Isabelle
  imports Complex_Main "HOL-Library.AList" "HOL-Library.Monad_Syntax"
begin

section \<open>The finance tracker of taskmanv1.py\<close>

text \<open>
  The development embeds the classes \<^verbatim>\<open>Transaction\<close> and \<^verbatim>\<open>FinanceManager\<close> of
  \<^verbatim>\<open>taskmanv1.py\<close>. Modelling decisions:
  \<^item> The values that reach the dynamic checks of the constructor are a datatype \<open>pyval\<close>:
    the numbers (\<^verbatim>\<open>int\<close>, \<^verbatim>\<open>float\<close>, and \<^verbatim>\<open>bool\<close>, a subclass of \<^verbatim>\<open>int\<close> with the values
    1 and 0), strings and \<^verbatim>\<open>None\<close>.
  \<^item> A \<^verbatim>\<open>float\<close> is a finite value, an infinity or NaN. Comparison, copying, storing
    and the conversion of an \<^verbatim>\<open>int\<close> follow IEEE 754 (binary64); the sum of two finite
    floats is their exact sum, without the rounding of the last bit and without
    overflow.
  \<^item> A \<^verbatim>\<open>str\<close> is a \<open>string\<close>, the text in UTF-8. On a text of ASCII characters
    \<^verbatim>\<open>str.lower\<close> maps A to Z to a to z; on any other text it is what the Unicode tables
    of the interpreter say, which the functions take as the parameter \<open>L\<close>.
  \<^item> Both failures of the constructor are \<^verbatim>\<open>ValueError\<close> in the source, told apart by
    their message; the model names them \<open>InvalidAmount\<close> and \<open>InvalidKind\<close> as the
    specification does. \<open>InvalidDate\<close> is the \<^verbatim>\<open>ValueError\<close> of \<^verbatim>\<open>datetime.strptime\<close>,
    \<open>AttributeError\<close> the failure of \<^verbatim>\<open>.lower()\<close> on a value that is no string, and
    \<open>OverflowError\<close> the failure of \<^verbatim>\<open>float\<close> on an \<^verbatim>\<open>int\<close> beyond the range of floats.
\<close>

subsection \<open>Floats\<close>

datatype pyfloat = Finite real | PosInf | NegInf | NaN

instantiation pyfloat :: "{comm_monoid_add, uminus, minus}"
begin

definition zero_pyfloat :: pyfloat where
  "zero_pyfloat = Finite 0"

fun plus_pyfloat :: "pyfloat \<Rightarrow> pyfloat \<Rightarrow> pyfloat" where
  "plus_pyfloat NaN y = NaN"
| "plus_pyfloat x NaN = NaN"
| "plus_pyfloat PosInf NegInf = NaN"
| "plus_pyfloat NegInf PosInf = NaN"
| "plus_pyfloat PosInf y = PosInf"
| "plus_pyfloat x PosInf = PosInf"
| "plus_pyfloat NegInf y = NegInf"
| "plus_pyfloat x NegInf = NegInf"
| "plus_pyfloat (Finite a) (Finite b) = Finite (a + b)"

fun uminus_pyfloat :: "pyfloat \<Rightarrow> pyfloat" where
  "uminus_pyfloat (Finite a) = Finite (- a)"
| "uminus_pyfloat PosInf = NegInf"
| "uminus_pyfloat NegInf = PosInf"
| "uminus_pyfloat NaN = NaN"

definition minus_pyfloat :: "pyfloat \<Rightarrow> pyfloat \<Rightarrow> pyfloat" where
  "minus_pyfloat x y = x + (- y)"

instance
proof
  fix x y z :: pyfloat
  show "0 + x = x"
    by (cases x) (auto simp: zero_pyfloat_def)
  show "x + y = y + x"
    by (cases x; cases y) auto
  show "x + y + z = x + (y + z)"
    by (cases x; cases y; cases z) auto
qed

end

text \<open>\<^verbatim>\<open>x <= 0\<close> on a float: false for NaN.\<close>

fun float_le_zero :: "pyfloat \<Rightarrow> bool" where
  "float_le_zero (Finite a) = (a \<le> 0)"
| "float_le_zero PosInf = False"
| "float_le_zero NegInf = True"
| "float_le_zero NaN = False"

text \<open>
  \<^verbatim>\<open>float(i)\<close> for an \<^verbatim>\<open>int\<close>: the nearest float, a tie going to the even one of the two,
  and \<^verbatim>\<open>OverflowError\<close> when that would be beyond the largest float. A float has 53
  significant bits, so a number of more bits loses its low bits by rounding.
\<close>

datatype error = InvalidAmount | InvalidKind | InvalidDate | AttributeError | OverflowError

fun bit_length :: "nat \<Rightarrow> nat" where
  "bit_length n = (if n = 0 then 0 else Suc (bit_length (n div 2)))"

declare bit_length.simps [simp del]

definition round_to_53_bits :: "nat \<Rightarrow> nat" where
  "round_to_53_bits n =
     (if bit_length n \<le> 53 then n
      else
        (let sh = bit_length n - 53;
             q = n div 2 ^ sh;
             r = n mod 2 ^ sh;
             half = 2 ^ (sh - 1)
         in (if half < r \<or> (r = half \<and> odd q) then q + 1 else q) * 2 ^ sh))"

definition float_of_int :: "int \<Rightarrow> error + pyfloat" where
  "float_of_int i =
     (if 2 ^ 1024 - 2 ^ 970 \<le> \<bar>i\<bar> then Inl OverflowError
      else Inr (Finite (of_int (sgn i * int (round_to_53_bits (nat \<bar>i\<bar>))))))"

subsection \<open>Python values and strings\<close>

datatype number = PyInt int | PyFloat pyfloat | PyBool bool

datatype pyval = Num number | PyStr string | PyNone

text \<open>\<^verbatim>\<open>amount <= 0\<close> for a number.\<close>

fun le_zero :: "number \<Rightarrow> bool" where
  "le_zero (PyInt i) = (i \<le> 0)"
| "le_zero (PyFloat x) = float_le_zero x"
| "le_zero (PyBool b) = (\<not> b)"

text \<open>\<^verbatim>\<open>float(amount)\<close> for a number.\<close>

fun py_float :: "number \<Rightarrow> error + pyfloat" where
  "py_float (PyInt i) = float_of_int i"
| "py_float (PyFloat x) = Inr x"
| "py_float (PyBool b) = Inr (Finite (if b then 1 else 0))"

definition is_ascii :: "char \<Rightarrow> bool" where
  "is_ascii c = ((of_char c :: nat) < 128)"

definition lower_char :: "char \<Rightarrow> char" where
  "lower_char c =
     (let n = (of_char c :: nat) in if 65 \<le> n \<and> n \<le> 90 then char_of (n + 32) else c)"

text \<open>
  \<^verbatim>\<open>s.lower()\<close>. \<open>L\<close> is \<^verbatim>\<open>str.lower\<close> on the texts that hold a character beyond ASCII.
\<close>

definition lower :: "(string \<Rightarrow> string) \<Rightarrow> string \<Rightarrow> string" where
  "lower L s = (if list_all is_ascii s then map lower_char s else L s)"

subsection \<open>Dates\<close>

text \<open>
  \<^verbatim>\<open>datetime.date\<close> (what the date picker of the form returns) and
  \<^verbatim>\<open>datetime.datetime\<close> (what \<^verbatim>\<open>datetime.now()\<close> and \<^verbatim>\<open>strptime\<close> return).
\<close>

datatype pydate =
    PyDate nat nat nat
  | PyDateTime nat nat nat nat nat nat nat

subsection \<open>Transaction\<close>

record transaction =
  amount :: pyfloat
  category :: string
  type :: string
  date :: pydate

definition valid_types :: "string list" where
  "valid_types = [''expense'', ''income'']"

text \<open>
  \<^verbatim>\<open>Transaction.__init__(amount, category, transac_type, date)\<close>; \<open>now\<close> is what
  \<^verbatim>\<open>datetime.now()\<close> returns at the call. The steps run in the source's order. Line 13:
  a value that is no \<^verbatim>\<open>int\<close> or \<^verbatim>\<open>float\<close> is refused, and for a number \<^verbatim>\<open>amount <= 0\<close>
  decides. Line 17: \<^verbatim>\<open>transac_type.lower()\<close> raises on a value that is no string, and the
  lowercase form is looked up in \<^verbatim>\<open>valid_types\<close>. Line 23: \<^verbatim>\<open>float(amount)\<close>, which can
  raise for an \<^verbatim>\<open>int\<close>.
\<close>

definition Transaction ::
  "(string \<Rightarrow> string) \<Rightarrow> pydate \<Rightarrow> pyval \<Rightarrow> string \<Rightarrow> pyval \<Rightarrow> pydate option \<Rightarrow>
   error + transaction" where
  "Transaction L now amt cat transac_type dt =
     (case amt of
        Num n \<Rightarrow>
          if le_zero n then Inl InvalidAmount
          else
            (case transac_type of
               PyStr k \<Rightarrow>
                 if lower L k \<notin> set valid_types then Inl InvalidKind
                 else
                   (case py_float n of
                      Inl e \<Rightarrow> Inl e
                    | Inr x \<Rightarrow>
                        Inr \<lparr>amount = x, category = cat, type = lower L k,
                             date = (case dt of None \<Rightarrow> now | Some d \<Rightarrow> d)\<rparr>)
             | _ \<Rightarrow> Inl AttributeError)
      | _ \<Rightarrow> Inl InvalidAmount)"

subsection \<open>The text form of a date in the table\<close>

text \<open>
  \<^verbatim>\<open>strftime('%Y-%m-%d %H:%M:%S')\<close>, as the C library under the interpreter writes it on
  Linux: the year as a decimal number without padding (four digits from the year 1000
  on), every other field zero-filled to two digits; a \<^verbatim>\<open>date\<close> has the time fields 0.
\<close>

definition digit_char :: "nat \<Rightarrow> char" where
  "digit_char n = char_of (48 + n)"

fun decimal :: "nat \<Rightarrow> string" where
  "decimal n = (if n < 10 then [digit_char n] else decimal (n div 10) @ [digit_char (n mod 10)])"

declare decimal.simps [simp del]

fun zero_pad :: "nat \<Rightarrow> nat \<Rightarrow> string" where
  "zero_pad 0 n = []"
| "zero_pad (Suc w) n = zero_pad w (n div 10) @ [digit_char (n mod 10)]"

fun strftime :: "pydate \<Rightarrow> string" where
  "strftime (PyDate y m d) =
     decimal y @ ''-'' @ zero_pad 2 m @ ''-'' @ zero_pad 2 d @ '' '' @
     zero_pad 2 0 @ '':'' @ zero_pad 2 0 @ '':'' @ zero_pad 2 0"
| "strftime (PyDateTime y m d H M S us) =
     decimal y @ ''-'' @ zero_pad 2 m @ ''-'' @ zero_pad 2 d @ '' '' @
     zero_pad 2 H @ '':'' @ zero_pad 2 M @ '':'' @ zero_pad 2 S"

text \<open>The ranges the constructor of \<^verbatim>\<open>datetime\<close> enforces on every date object.\<close>

definition is_leap :: "nat \<Rightarrow> bool" where
  "is_leap y = (y mod 4 = 0 \<and> (y mod 100 \<noteq> 0 \<or> y mod 400 = 0))"

definition days_in_month :: "nat \<Rightarrow> nat \<Rightarrow> nat" where
  "days_in_month y m =
     (if m = 2 then (if is_leap y then 29 else 28)
      else if m = 4 \<or> m = 6 \<or> m = 9 \<or> m = 11 then 30 else 31)"

definition valid_datetime :: "nat \<Rightarrow> nat \<Rightarrow> nat \<Rightarrow> nat \<Rightarrow> nat \<Rightarrow> nat \<Rightarrow> nat \<Rightarrow> bool" where
  "valid_datetime y m d H M S us =
     (1 \<le> y \<and> y \<le> 9999 \<and> 1 \<le> m \<and> m \<le> 12 \<and> 1 \<le> d \<and> d \<le> days_in_month y m \<and>
      H < 24 \<and> M < 60 \<and> S < 60 \<and> us < 1000000)"

fun valid_pydate :: "pydate \<Rightarrow> bool" where
  "valid_pydate (PyDate y m d) = valid_datetime y m d 0 0 0 0"
| "valid_pydate (PyDateTime y m d H M S us) = valid_datetime y m d H M S us"

text \<open>
  \<^verbatim>\<open>datetime.strptime(text, '%Y-%m-%d %H:%M:%S')\<close> on ASCII text. The library turns the
  format into a regular expression and matches it at the start of the text:
  \<^item> \<^verbatim>\<open>%Y\<close> is four digits;
  \<^item> \<^verbatim>\<open>%m\<close> is \<^verbatim>\<open>1[0-2]|0[1-9]|[1-9]\<close>, \<^verbatim>\<open>%d\<close> is \<^verbatim>\<open>3[01]|[12]\d|0[1-9]|[1-9]| [1-9]\<close>,
    \<^verbatim>\<open>%H\<close> is \<^verbatim>\<open>2[0-3]|[0-1]\d|\d\<close>, \<^verbatim>\<open>%M\<close> is \<^verbatim>\<open>[0-5]\d|\d\<close> and \<^verbatim>\<open>%S\<close> is
    \<^verbatim>\<open>6[01]|[0-5]\d|\d\<close>: two digits of an allowed form, or else one;
  \<^item> the blank of the format is one or more white-space characters;
  \<^item> text left over after the match, and field values that the constructor of
    \<^verbatim>\<open>datetime\<close> refuses (the year 0, a day the month does not have, the seconds 60 and
    61), are a \<^verbatim>\<open>ValueError\<close>.
  Every field is followed by a character that is no digit, so the first alternative that
  matches is the one the whole match uses.
\<close>

definition digit_of :: "char \<Rightarrow> nat option" where
  "digit_of c =
     (let n = (of_char c :: nat) in if 48 \<le> n \<and> n \<le> 57 then Some (n - 48) else None)"

definition is_space :: "char \<Rightarrow> bool" where
  "is_space c =
     (let n = (of_char c :: nat) in (9 \<le> n \<and> n \<le> 13) \<or> (28 \<le> n \<and> n \<le> 32))"

text \<open>A field of two digits of an allowed form, or else of one allowed digit.\<close>

fun two_or_one ::
  "(nat \<Rightarrow> nat \<Rightarrow> bool) \<Rightarrow> (nat \<Rightarrow> bool) \<Rightarrow> string \<Rightarrow> (nat \<times> string) option" where
  "two_or_one ok2 ok1 [] = None"
| "two_or_one ok2 ok1 [c] =
     (case digit_of c of
        None \<Rightarrow> None
      | Some a \<Rightarrow> if ok1 a then Some (a, []) else None)"
| "two_or_one ok2 ok1 (c # c' # cs) =
     (case digit_of c of
        None \<Rightarrow> None
      | Some a \<Rightarrow>
          (case digit_of c' of
             None \<Rightarrow> if ok1 a then Some (a, c' # cs) else None
           | Some b \<Rightarrow>
               if ok2 a b then Some (10 * a + b, cs)
               else if ok1 a then Some (a, c' # cs)
               else None))"

fun year_field :: "string \<Rightarrow> (nat \<times> string) option" where
  "year_field (c1 # c2 # c3 # c4 # cs) =
     do {
       a \<leftarrow> digit_of c1;
       b \<leftarrow> digit_of c2;
       c \<leftarrow> digit_of c3;
       d \<leftarrow> digit_of c4;
       Some (1000 * a + 100 * b + 10 * c + d, cs)
     }"
| "year_field cs = None"

definition month_field :: "string \<Rightarrow> (nat \<times> string) option" where
  "month_field =
     two_or_one (\<lambda>a b. (a = 1 \<and> b \<le> 2) \<or> (a = 0 \<and> 1 \<le> b)) (\<lambda>a. 1 \<le> a)"

definition day_field :: "string \<Rightarrow> (nat \<times> string) option" where
  "day_field s =
     (case two_or_one (\<lambda>a b. (a = 3 \<and> b \<le> 1) \<or> a = 1 \<or> a = 2 \<or> (a = 0 \<and> 1 \<le> b))
             (\<lambda>a. 1 \<le> a) s of
        Some r \<Rightarrow> Some r
      | None \<Rightarrow>
          (case s of
             c # c' # cs \<Rightarrow>
               (if c = CHR '' '' then
                  (case digit_of c' of
                     None \<Rightarrow> None
                   | Some a \<Rightarrow> if 1 \<le> a then Some (a, cs) else None)
                else None)
           | _ \<Rightarrow> None))"

definition hour_field :: "string \<Rightarrow> (nat \<times> string) option" where
  "hour_field = two_or_one (\<lambda>a b. (a = 2 \<and> b \<le> 3) \<or> a \<le> 1) (\<lambda>a. True)"

definition minute_field :: "string \<Rightarrow> (nat \<times> string) option" where
  "minute_field = two_or_one (\<lambda>a b. a \<le> 5) (\<lambda>a. True)"

definition second_field :: "string \<Rightarrow> (nat \<times> string) option" where
  "second_field = two_or_one (\<lambda>a b. (a = 6 \<and> b \<le> 1) \<or> a \<le> 5) (\<lambda>a. True)"

fun expect :: "char \<Rightarrow> string \<Rightarrow> string option" where
  "expect x [] = None"
| "expect x (c # cs) = (if c = x then Some cs else None)"

fun spaces :: "string \<Rightarrow> string option" where
  "spaces [] = None"
| "spaces (c # cs) = (if is_space c then Some (dropWhile is_space cs) else None)"

definition parse_datetime :: "string \<Rightarrow> pydate option" where
  "parse_datetime s =
     do {
       (y, s1) \<leftarrow> year_field s;
       s2 \<leftarrow> expect CHR ''-'' s1;
       (m, s3) \<leftarrow> month_field s2;
       s4 \<leftarrow> expect CHR ''-'' s3;
       (d, s5) \<leftarrow> day_field s4;
       s6 \<leftarrow> spaces s5;
       (H, s7) \<leftarrow> hour_field s6;
       s8 \<leftarrow> expect CHR '':'' s7;
       (M, s9) \<leftarrow> minute_field s8;
       s10 \<leftarrow> expect CHR '':'' s9;
       (S, s11) \<leftarrow> second_field s10;
       if s11 = [] \<and> valid_datetime y m d H M S 0
       then Some (PyDateTime y m d H M S 0) else None
     }"

definition strptime :: "string \<Rightarrow> error + pydate" where
  "strptime s = (case parse_datetime s of None \<Rightarrow> Inl InvalidDate | Some d \<Rightarrow> Inr d)"

subsection \<open>FinanceManager\<close>

text \<open>
  A row of the table \<^verbatim>\<open>transactions\<close> of \<^verbatim>\<open>finance.db\<close>. The table is a list in
  the order of the row identifiers, which is the order \<^verbatim>\<open>SELECT\<close> returns the rows in.
  The column \<^verbatim>\<open>amount\<close> holds a float or \<^verbatim>\<open>NULL\<close>: SQLite stores a NaN as \<^verbatim>\<open>NULL\<close>.
\<close>

record row =
  row_id :: int
  row_amount :: "pyfloat option"
  row_category :: string
  row_type :: string
  row_date :: string

fun sql_real :: "pyfloat \<Rightarrow> pyfloat option" where
  "sql_real NaN = None"
| "sql_real x = Some x"

text \<open>What \<^verbatim>\<open>fetchall\<close> hands back for the column: a float, or \<^verbatim>\<open>None\<close> for \<^verbatim>\<open>NULL\<close>.\<close>

fun fetched_amount :: "pyfloat option \<Rightarrow> pyval" where
  "fetched_amount None = PyNone"
| "fetched_amount (Some x) = Num (PyFloat x)"

text \<open>
  The state the manager works on: its list \<^verbatim>\<open>self.transactions\<close>, the table, and the
  errors it has shown with \<^verbatim>\<open>messagebox.showerror\<close>.
\<close>

record state =
  transactions :: "transaction list"
  db :: "row list"
  errors_shown :: "error list"

text \<open>
  The identifier SQLite gives to a new row of a table with an
  \<^verbatim>\<open>INTEGER PRIMARY KEY\<close> column: one more than the largest in the table, 1 in an
  empty table.
\<close>

definition next_id :: "row list \<Rightarrow> int" where
  "next_id rows = (case rows of [] \<Rightarrow> 1 | r # rs \<Rightarrow> fold max (map row_id rs) (row_id r) + 1)"

text \<open>
  The loop of \<^verbatim>\<open>load_transactions\<close>: each row is parsed, validated and appended to the
  list as it stands. An exception leaves the loop with what was appended so far.
\<close>

fun load_rows ::
  "(string \<Rightarrow> string) \<Rightarrow> pydate \<Rightarrow> row list \<Rightarrow> transaction list \<Rightarrow>
   (error + unit) \<times> transaction list" where
  "load_rows L now [] ts = (Inr (), ts)"
| "load_rows L now (r # rs) ts =
     (case strptime (row_date r) of
        Inl e \<Rightarrow> (Inl e, ts)
      | Inr d \<Rightarrow>
          (case Transaction L now (fetched_amount (row_amount r)) (row_category r)
                  (PyStr (row_type r)) (Some d) of
             Inl e \<Rightarrow> (Inl e, ts)
           | Inr t \<Rightarrow> load_rows L now rs (ts @ [t])))"

definition load_transactions ::
  "(string \<Rightarrow> string) \<Rightarrow> pydate \<Rightarrow> state \<Rightarrow> (error + unit) \<times> state" where
  "load_transactions L now s =
     (case load_rows L now (db s) (transactions s) of (r, ts) \<Rightarrow> (r, s\<lparr>transactions := ts\<rparr>))"

text \<open>
  \<^verbatim>\<open>FinanceManager()\<close> on a database file holding \<open>rows\<close>: the list starts empty,
  the table is created only if absent, and the rows are loaded.
\<close>

definition FinanceManager ::
  "(string \<Rightarrow> string) \<Rightarrow> pydate \<Rightarrow> row list \<Rightarrow> (error + unit) \<times> state" where
  "FinanceManager L now rows =
     load_transactions L now \<lparr>transactions = [], db = rows, errors_shown = []\<rparr>"

text \<open>The exceptions \<^verbatim>\<open>except ValueError\<close> catches.\<close>

fun is_ValueError :: "error \<Rightarrow> bool" where
  "is_ValueError InvalidAmount = True"
| "is_ValueError InvalidKind = True"
| "is_ValueError InvalidDate = True"
| "is_ValueError AttributeError = False"
| "is_ValueError OverflowError = False"

definition add_transaction ::
  "(string \<Rightarrow> string) \<Rightarrow> pydate \<Rightarrow> pyval \<Rightarrow> string \<Rightarrow> pyval \<Rightarrow> pydate option \<Rightarrow> state \<Rightarrow>
   (error + bool) \<times> state" where
  "add_transaction L now amt cat trans_type dt s =
     (case Transaction L now amt cat trans_type dt of
        Inr t \<Rightarrow>
          (Inr True,
           s\<lparr>transactions := transactions s @ [t],
             db := db s @ [\<lparr>row_id = next_id (db s), row_amount = sql_real (amount t),
                             row_category = category t, row_type = type t,
                             row_date = strftime (date t)\<rparr>]\<rparr>)
      | Inl e \<Rightarrow>
          if is_ValueError e then (Inr False, s\<lparr>errors_shown := errors_shown s @ [e]\<rparr>)
          else (Inl e, s))"

text \<open>
  \<^verbatim>\<open>sum(...)\<close>: the elements added to 0 in their order. On exact numbers every way of
  adding them gives this value.
\<close>

definition py_sum :: "pyfloat list \<Rightarrow> pyfloat" where
  "py_sum xs = foldl (+) 0 xs"

definition get_total_income :: "state \<Rightarrow> pyfloat" where
  "get_total_income s = py_sum (map amount (filter (\<lambda>t. type t = ''income'') (transactions s)))"

definition get_total_expenses :: "state \<Rightarrow> pyfloat" where
  "get_total_expenses s = py_sum (map amount (filter (\<lambda>t. type t = ''expense'') (transactions s)))"


text \<open>
  The argument \<^verbatim>\<open>category\<close> is \<^verbatim>\<open>None\<close> by default; the guard \<^verbatim>\<open>if category:\<close> is
  false for \<^verbatim>\<open>None\<close> and for the empty string.
\<close>

definition get_transactions_by_category ::
  "(string \<Rightarrow> string) \<Rightarrow> string option \<Rightarrow> state \<Rightarrow> transaction list" where
  "get_transactions_by_category L cat s =
     (case cat of
        None \<Rightarrow> transactions s
      | Some c \<Rightarrow>
          if c \<noteq> []
          then filter (\<lambda>t. lower L (category t) = lower L c) (transactions s)
          else transactions s)"

text \<open>
  A \<^verbatim>\<open>dict\<close> keeps its keys in the order of their first insertion: an association
  list, where storing under a key that is present replaces the value in place and
  storing under a new key appends.
\<close>

type_synonym totals = "(string \<times> pyfloat) list"

definition dict_get :: "totals \<Rightarrow> string \<Rightarrow> pyfloat \<Rightarrow> pyfloat" where
  "dict_get d k dflt = (case map_of d k of None \<Rightarrow> dflt | Some v \<Rightarrow> v)"

definition dict_set :: "totals \<Rightarrow> string \<Rightarrow> pyfloat \<Rightarrow> totals" where
  "dict_set d k v = AList.update k v d"

fun category_totals_loop :: "transaction list \<Rightarrow> totals \<Rightarrow> totals \<Rightarrow> totals \<times> totals" where
  "category_totals_loop [] expense_categories income_categories =
     (expense_categories, income_categories)"
| "category_totals_loop (t # ts) expense_categories income_categories =
     (if type t = ''expense''
      then category_totals_loop ts
             (dict_set expense_categories (category t)
                (dict_get expense_categories (category t) 0 + amount t))
             income_categories
      else category_totals_loop ts expense_categories
             (dict_set income_categories (category t)
                (dict_get income_categories (category t) 0 + amount t)))"

definition get_category_totals :: "state \<Rightarrow> totals \<times> totals" where
  "get_category_totals s = category_totals_loop (transactions s) [] []"

text \<open>\<^verbatim>\<open>DELETE FROM transactions WHERE id = ?\<close>, then \<^verbatim>\<open>self.load_transactions()\<close>.\<close>

definition delete_transaction ::
  "(string \<Rightarrow> string) \<Rightarrow> pydate \<Rightarrow> int \<Rightarrow> state \<Rightarrow> (error + unit) \<times> state" where
  "delete_transaction L now transaction_id s =
     load_transactions L now (s\<lparr>db := filter (\<lambda>r. row_id r \<noteq> transaction_id) (db s)\<rparr>)"

text \<open>Sequences of additions and deletions; an operation that raises leaves its state behind.\<close>

datatype op = Add pydate pyval string pyval "pydate option" | Delete pydate int

fun apply_op :: "(string \<Rightarrow> string) \<Rightarrow> op \<Rightarrow> state \<Rightarrow> state" where
  "apply_op L (Add now amt cat trans_type dt) s =
     snd (add_transaction L now amt cat trans_type dt s)"
| "apply_op L (Delete now transaction_id) s = snd (delete_transaction L now transaction_id s)"

definition run :: "(string \<Rightarrow> string) \<Rightarrow> op list \<Rightarrow> state \<Rightarrow> state" where
  "run L ops s = fold (apply_op L) ops s"

subsection \<open>Notions of the specification\<close>

text \<open>
  A positive number, in the words of the specification: a value of a numeric type that
  is greater than 0. NaN is a float and no number; plus infinity is greater than 0.
\<close>

fun positive_number :: "pyval \<Rightarrow> bool" where
  "positive_number (Num (PyInt i)) = (0 < i)"
| "positive_number (Num (PyFloat (Finite a))) = (0 < a)"
| "positive_number (Num (PyFloat PosInf)) = True"
| "positive_number (Num (PyFloat NegInf)) = False"
| "positive_number (Num (PyFloat NaN)) = False"
| "positive_number (Num (PyBool b)) = b"
| "positive_number (PyStr s) = False"
| "positive_number PyNone = False"

text \<open>A date at the precision of the stored text: whole seconds.\<close>

fun stored_precision :: "pydate \<Rightarrow> pydate" where
  "stored_precision (PyDate y m d) = PyDateTime y m d 0 0 0 0"
| "stored_precision (PyDateTime y m d H M S us) = PyDateTime y m d H M S 0"

fun year :: "pydate \<Rightarrow> nat" where
  "year (PyDate y m d) = y"
| "year (PyDateTime y m d H M S us) = y"

text \<open>\<^verbatim>\<open>d.values()\<close>, in the order of the keys.\<close>

definition dict_values :: "totals \<Rightarrow> pyfloat list" where
  "dict_values d = map snd d"

text \<open>
  The sum of the amounts of the transactions of a list that satisfy \<open>P\<close> and carry
  exactly the label \<open>c\<close>.
\<close>

definition total_of :: "(transaction \<Rightarrow> bool) \<Rightarrow> string \<Rightarrow> transaction list \<Rightarrow> pyfloat" where
  "total_of P c ts = sum_list (map amount (filter (\<lambda>t. P t \<and> category t = c) ts))"

subsection \<open>Example ledgers\<close>

text \<open>
  Every text of the examples is ASCII, so the parameter \<open>L\<close> is never applied in
  them; the examples pass the identity for it.
\<close>

definition no_unicode :: "string \<Rightarrow> string" where
  "no_unicode s = s"

definition empty_state :: state where
  "empty_state = \<lparr>transactions = [], db = [], errors_shown = []\<rparr>"


definition example_state :: state where
  "example_state =
     \<lparr>transactions =
        [\<lparr>amount = Finite 1200, category = ''Salary'', type = ''income'',
          date = PyDate 2024 1 5\<rparr>,
         \<lparr>amount = Finite 300, category = ''Rent'', type = ''expense'',
          date = PyDate 2024 1 6\<rparr>],
      db =
        [\<lparr>row_id = 1, row_amount = Some (Finite 1200), row_category = ''Salary'',
          row_type = ''income'', row_date = ''2024-01-05 00:00:00''\<rparr>,
         \<lparr>row_id = 2, row_amount = Some (Finite 300), row_category = ''Rent'',
          row_type = ''expense'', row_date = ''2024-01-06 00:00:00''\<rparr>],
      errors_shown = []\<rparr>"

text \<open>What a new manager holds after loading the table of \<open>example_state\<close>.\<close>

definition example_reloaded :: state where
  "example_reloaded =
     \<lparr>transactions =
        [\<lparr>amount = Finite 1200, category = ''Salary'', type = ''income'',
          date = PyDateTime 2024 1 5 0 0 0 0\<rparr>,
         \<lparr>amount = Finite 300, category = ''Rent'', type = ''expense'',
          date = PyDateTime 2024 1 6 0 0 0 0\<rparr>],
      db = db example_state,
      errors_shown = []\<rparr>"

text \<open>Three expenses, two of them under labels that differ in letter case only.\<close>

definition t_Food :: transaction where
  "t_Food =
     \<lparr>amount = Finite 10, category = ''Food'', type = ''expense'', date = PyDate 2024 1 5\<rparr>"

definition t_Rent :: transaction where
  "t_Rent =
     \<lparr>amount = Finite 300, category = ''Rent'', type = ''expense'', date = PyDate 2024 1 6\<rparr>"

definition t_food :: transaction where
  "t_food =
     \<lparr>amount = Finite 5, category = ''food'', type = ''expense'', date = PyDate 2024 1 7\<rparr>"

definition mixed_case_ops :: "op list" where
  "mixed_case_ops =
     [Add (PyDateTime 2024 1 7 9 30 0 0) (Num (PyInt 10)) ''Food'' (PyStr ''expense'')
        (Some (PyDate 2024 1 5)),
      Add (PyDateTime 2024 1 7 9 31 0 0) (Num (PyInt 300)) ''Rent'' (PyStr ''expense'')
        (Some (PyDate 2024 1 6)),
      Add (PyDateTime 2024 1 7 9 32 0 0) (Num (PyInt 5)) ''food'' (PyStr ''expense'')
        (Some (PyDate 2024 1 7))]"

definition mixed_case_state :: state where
  "mixed_case_state =
     \<lparr>transactions = [t_Food, t_Rent, t_food],
      db =
        [\<lparr>row_id = 1, row_amount = Some (Finite 10), row_category = ''Food'',
          row_type = ''expense'', row_date = ''2024-01-05 00:00:00''\<rparr>,
         \<lparr>row_id = 2, row_amount = Some (Finite 300), row_category = ''Rent'',
          row_type = ''expense'', row_date = ''2024-01-06 00:00:00''\<rparr>,
         \<lparr>row_id = 3, row_amount = Some (Finite 5), row_category = ''food'',
          row_type = ''expense'', row_date = ''2024-01-07 00:00:00''\<rparr>],
      errors_shown = []\<rparr>"

text \<open>A date of the year 999, the transaction that carries it and the row written for it.\<close>

definition t_999 :: transaction where
  "t_999 =
     \<lparr>amount = Finite 10, category = ''Food'', type = ''expense'', date = PyDate 999 1 1\<rparr>"

definition row_999 :: row where
  "row_999 =
     \<lparr>row_id = 1, row_amount = Some (Finite 10), row_category = ''Food'',
      row_type = ''expense'', row_date = ''999-01-01 00:00:00''\<rparr>"

section \<open>Evaluation on concrete inputs\<close>

lemma lower_income: "lower L ''income'' = ''income''"
  by code_simp

lemma lower_expense: "lower L ''expense'' = ''expense''"
  by code_simp

lemma digit_char_simps:
  "digit_char 0 = CHR ''0''" "digit_char 1 = CHR ''1''" "digit_char 2 = CHR ''2''"
  "digit_char 3 = CHR ''3''" "digit_char 4 = CHR ''4''" "digit_char 5 = CHR ''5''"
  "digit_char 6 = CHR ''6''" "digit_char 7 = CHR ''7''" "digit_char 8 = CHR ''8''"
  "digit_char 9 = CHR ''9''" "digit_char (Suc 0) = CHR ''1''"
  by code_simp+

lemma zero_pad_2: "zero_pad 2 n = [digit_char (n div 10 mod 10), digit_char (n mod 10)]"
  unfolding numeral_2_eq_2 by simp

lemma decimal_4:
  assumes "1000 \<le> y" "y \<le> 9999"
  shows "decimal y =
     [digit_char (y div 10 div 10 div 10), digit_char (y div 10 div 10 mod 10),
      digit_char (y div 10 mod 10), digit_char (y mod 10)]"
proof -
  have a: "\<not> y < 10" "\<not> y div 10 < 10" "\<not> y div 10 div 10 < 10" "y div 10 div 10 div 10 < 10"
    using assms by simp_all
  show ?thesis
    by (simp add: decimal.simps [of y] decimal.simps [of "y div 10"]
        decimal.simps [of "y div 10 div 10"] decimal.simps [of "y div 10 div 10 div 10"] a)
qed

lemma decimal_999: "decimal 999 = ''999''"
  by (simp add: decimal.simps [of 999] decimal.simps [of 99] decimal.simps [of 9] digit_char_simps)

lemma bit_length_le: "n < 2 ^ k \<Longrightarrow> bit_length n \<le> k"
proof (induction k arbitrary: n)
  case 0
  then show ?case by (simp add: bit_length.simps [of 0])
next
  case (Suc k)
  from Suc.prems have "n div 2 < 2 ^ k" by simp
  from Suc.IH [OF this] show ?case by (simp add: bit_length.simps [of n])
qed

lemma round_to_53_bits_small: "n < 2 ^ 53 \<Longrightarrow> round_to_53_bits n = n"
  by (simp add: round_to_53_bits_def bit_length_le)

lemma float_of_int_small: "\<bar>i\<bar> < 2 ^ 53 \<Longrightarrow> float_of_int i = Inr (Finite (of_int i))"
proof -
  assume a: "\<bar>i\<bar> < 2 ^ 53"
  have "(2::int) ^ 53 \<le> 2 ^ 1024 - 2 ^ 970" by simp
  with a have b: "\<not> 2 ^ 1024 - 2 ^ 970 \<le> \<bar>i\<bar>" by linarith
  from a have "nat \<bar>i\<bar> < 2 ^ 53" by (simp add: nat_less_iff)
  then have "round_to_53_bits (nat \<bar>i\<bar>) = nat \<bar>i\<bar>" by (rule round_to_53_bits_small)
  moreover have "sgn i * \<bar>i\<bar> = i" by (simp add: mult_sgn_abs)
  ultimately show ?thesis using b by (simp add: float_of_int_def)
qed

lemma float_of_int_overflow: "float_of_int (2 ^ 1024) = Inl OverflowError"
  by (simp add: float_of_int_def)

text \<open>\<^verbatim>\<open>float(2**53 + 1)\<close> is \<^verbatim>\<open>2**53\<close>: the last bit is lost, the tie going to the even float.\<close>

lemma bit_length_upper: "n < 2 ^ bit_length n"
proof (induction n rule: bit_length.induct)
  case (1 n)
  show ?case
  proof (cases "n = 0")
    case True
    then show ?thesis by simp
  next
    case False
    with 1 have "n div 2 < 2 ^ bit_length (n div 2)" by simp
    then have "n < 2 * 2 ^ bit_length (n div 2)" by linarith
    with False show ?thesis by (simp add: bit_length.simps [of n])
  qed
qed

lemma bit_length_eq: "2 ^ k \<le> n \<Longrightarrow> n < 2 ^ Suc k \<Longrightarrow> bit_length n = Suc k"
proof -
  assume lo: "2 ^ k \<le> n" and hi: "n < 2 ^ Suc k"
  from lo bit_length_upper [of n] have "(2::nat) ^ k < 2 ^ bit_length n" by linarith
  then have "k < bit_length n" by (simp add: power_strict_increasing_iff)
  moreover from hi have "bit_length n \<le> Suc k" by (rule bit_length_le)
  ultimately show ?thesis by simp
qed

lemma float_of_int_rounds: "float_of_int (2 ^ 53 + 1) = Inr (Finite (2 ^ 53))"
proof -
  have b: "bit_length 9007199254740993 = 54"
    using bit_length_eq [of 53 9007199254740993] by simp
  have n: "nat \<bar>2 ^ 53 + 1 :: int\<bar> = 2 ^ 53 + 1"
    by (simp add: nat_add_distrib nat_power_eq)
  have r: "round_to_53_bits 9007199254740993 = 9007199254740992"
    by (simp add: round_to_53_bits_def b)
  show ?thesis
    by (simp add: float_of_int_def n r del: abs_numeral)
qed

lemma strptime_examples:
  "strptime ''2024-01-05 00:00:00'' = Inr (PyDateTime 2024 1 5 0 0 0 0)"
  "strptime ''2024-01-06 00:00:00'' = Inr (PyDateTime 2024 1 6 0 0 0 0)"
  "strptime ''999-01-01 00:00:00'' = Inl InvalidDate"
  "strptime ''2024-1-5 3:04:5'' = Inr (PyDateTime 2024 1 5 3 4 5 0)"
  "strptime ''2024-02-30 00:00:00'' = Inl InvalidDate"
  "strptime ''2024-01-05 00:00:60'' = Inl InvalidDate"
  by (simp_all add: strptime_def parse_datetime_def digit_of_def is_space_def month_field_def
      day_field_def hour_field_def minute_field_def second_field_def
      valid_datetime_def days_in_month_def is_leap_def)

lemmas eval_Transaction =
  Transaction_def lower_income lower_expense valid_types_def float_of_int_small

lemmas eval_add =
  run_def add_transaction_def eval_Transaction next_id_def zero_pad_2 decimal_4 digit_char_simps


lemma run_mixed_case_ops: "run L mixed_case_ops empty_state = mixed_case_state"
  by (simp add: eval_add mixed_case_ops_def empty_state_def mixed_case_state_def
      t_Food_def t_Rent_def t_food_def)

lemma FinanceManager_example:
  "FinanceManager L now (db example_state) = (Inr (), example_reloaded)"
  by (simp add: FinanceManager_def load_transactions_def example_state_def example_reloaded_def
      strptime_examples eval_Transaction)

section \<open>The constructor of Transaction\<close>

text \<open>
  What line 13 refuses: every value that is no number, and every number for which
  \<^verbatim>\<open>amount <= 0\<close> holds. Every positive number passes it.
\<close>

lemma py_float_error: "py_float n = Inl e \<Longrightarrow> e = OverflowError"
  by (cases n) (auto simp: float_of_int_def split: if_splits)

lemma Transaction_amount_check:
  "(Transaction L now a c k d = Inl InvalidAmount) =
     (case a of Num n \<Rightarrow> le_zero n | _ \<Rightarrow> True)"
  by (auto simp: Transaction_def split: pyval.splits sum.splits dest: py_float_error)

lemma positive_number_passes:
  "positive_number a \<Longrightarrow> Transaction L now a c k d \<noteq> Inl InvalidAmount"
  by (induction a rule: positive_number.induct) (simp_all add: Transaction_amount_check)

text \<open>
  Claim C1 on the code. NaN is a \<^verbatim>\<open>float\<close>, so line 13 does not refuse it for its type,
  and \<^verbatim>\<open>nan <= 0\<close> is false: the constructor accepts the amount NaN, which is no
  positive number, where the claim and the message of line 14 say it fails.
\<close>

theorem Transaction_accepts_nan:
  "\<not> positive_number (Num (PyFloat NaN)) \<and>
   Transaction L now (Num (PyFloat NaN)) ''Food'' (PyStr ''expense'') None =
     Inr \<lparr>amount = NaN, category = ''Food'', type = ''expense'', date = now\<rparr>"
  by (simp add: eval_Transaction)

text \<open>
  Claim C2, as stated, fails: the amount is checked before the kind, so a kind that is
  neither expense nor income, given together with the amount -5, ends in
  \<open>InvalidAmount\<close>; and a kind that is no string ends in \<open>AttributeError\<close>.
\<close>

theorem Transaction_kind_check_counterexample:
  "lower no_unicode ''bogus'' \<notin> set valid_types \<and>
   Transaction no_unicode (PyDate 2024 1 5) (Num (PyInt (- 5))) ''Food'' (PyStr ''bogus'') None =
     Inl InvalidAmount \<and>
   Transaction no_unicode (PyDate 2024 1 5) (Num (PyInt (- 5))) ''Food'' (PyStr ''bogus'') None \<noteq>
     Inl InvalidKind \<and>
   Transaction no_unicode (PyDate 2024 1 5) (Num (PyInt 5)) ''Food'' PyNone None =
     Inl AttributeError"
proof -
  have "lower no_unicode ''bogus'' \<notin> set valid_types"
    by code_simp
  then show ?thesis
    by (simp add: Transaction_def)
qed

lemma not_le_zero: "positive_number (Num n) \<Longrightarrow> \<not> le_zero n"
  by (induction "Num n" rule: positive_number.induct) auto

text \<open>
  Claim C2, amended. Given a positive number as the amount, every kind string whose
  lowercase form is neither expense nor income makes the construction fail with
  \<open>InvalidKind\<close>.
\<close>

theorem Transaction_invalid_kind:
  "positive_number a \<Longrightarrow> lower L k \<notin> set valid_types \<Longrightarrow>
   Transaction L now a c (PyStr k) d = Inl InvalidKind"
  by (cases a) (simp_all add: Transaction_def not_le_zero)

theorem Transaction_invalid_kind_witness:
  "positive_number (Num (PyInt 5)) \<and> lower no_unicode ''Bogus'' \<notin> set valid_types \<and>
   Transaction no_unicode (PyDate 2024 1 5) (Num (PyInt 5)) ''Food'' (PyStr ''Bogus'') None =
     Inl InvalidKind"
proof -
  have p: "positive_number (Num (PyInt 5))"
    by simp
  have k: "lower no_unicode ''Bogus'' \<notin> set valid_types"
    by code_simp
  from Transaction_invalid_kind [OF p k] p k show ?thesis
    by blast
qed

text \<open>
  Claim C9, as stated, fails: the \<^verbatim>\<open>int\<close> \<^verbatim>\<open>2**1024\<close> is a positive number and passes both
  checks, and \<^verbatim>\<open>float(amount)\<close> on line 23 then raises \<open>OverflowError\<close>.
\<close>

theorem Transaction_overflow_counterexample:
  "positive_number (Num (PyInt (2 ^ 1024))) \<and>
   lower no_unicode ''income'' \<in> set valid_types \<and>
   Transaction no_unicode (PyDate 2024 1 5) (Num (PyInt (2 ^ 1024))) ''Salary'' (PyStr ''income'')
     None = Inl OverflowError"
  by (simp add: Transaction_def lower_income valid_types_def float_of_int_def)

text \<open>
  Claim C9, amended. Given a positive number as the amount that \<^verbatim>\<open>float\<close> converts
  (to \<open>x\<close>), every kind string whose lowercase form is expense or income is accepted,
  and the transaction stores that lowercase form (next to \<open>x\<close> as the amount, the
  category as given, and the date given or the current time).
\<close>

theorem Transaction_kind_normalised:
  "positive_number (Num n) \<Longrightarrow> py_float n = Inr x \<Longrightarrow> lower L k \<in> set valid_types \<Longrightarrow>
   Transaction L now (Num n) c (PyStr k) d =
     Inr \<lparr>amount = x, category = c, type = lower L k,
          date = (case d of None \<Rightarrow> now | Some y \<Rightarrow> y)\<rparr>"
  by (simp add: Transaction_def not_le_zero)

theorem Transaction_kind_normalised_witness:
  "positive_number (Num (PyInt 1200)) \<and> py_float (PyInt 1200) = Inr (Finite 1200) \<and>
   lower no_unicode ''InCome'' \<in> set valid_types \<and>
   Transaction no_unicode (PyDate 2024 1 5) (Num (PyInt 1200)) ''Salary'' (PyStr ''InCome'') None =
     Inr \<lparr>amount = Finite 1200, category = ''Salary'', type = ''income'',
          date = PyDate 2024 1 5\<rparr>"
proof -
  have p: "positive_number (Num (PyInt 1200))"
    by simp
  have f: "py_float (PyInt 1200) = Inr (Finite 1200)"
    by (simp add: float_of_int_small)
  have l: "lower no_unicode ''InCome'' = ''income''"
    by code_simp
  have k: "lower no_unicode ''InCome'' \<in> set valid_types"
    by (simp add: l valid_types_def)
  from Transaction_kind_normalised [OF p f k, of "PyDate 2024 1 5" "''Salary''" None] p f k l
  show ?thesis
    by simp
qed

section \<open>Adding a transaction\<close>

text \<open>
  The failure path: when the constructor raises a \<^verbatim>\<open>ValueError\<close>, \<open>add_transaction\<close>
  shows it and returns \<^verbatim>\<open>False\<close>, and neither the list nor the table changes. This is
  so for every amount that line 13 refuses.
\<close>

lemma add_transaction_refused:
  "Transaction L now a c k d = Inl e \<Longrightarrow> is_ValueError e \<Longrightarrow>
   add_transaction L now a c k d s = (Inr False, s\<lparr>errors_shown := errors_shown s @ [e]\<rparr>)"
  by (simp add: add_transaction_def)

lemma add_transaction_invalid_amount:
  "(case a of Num n \<Rightarrow> le_zero n | _ \<Rightarrow> True) \<Longrightarrow>
   add_transaction L now a c k d s =
     (Inr False, s\<lparr>errors_shown := errors_shown s @ [InvalidAmount]\<rparr>)"
  using Transaction_amount_check [of L now a c k d]
  by (simp add: add_transaction_refused)

text \<open>
  Claim C6 on the code. The amount NaN is no positive number, yet the constructor
  accepts it (the defect of claim C1): \<open>add_transaction\<close> returns \<^verbatim>\<open>True\<close>, the list
  gains the transaction and the table gains a row, whose amount is \<^verbatim>\<open>NULL\<close>.
\<close>

theorem add_transaction_accepts_nan:
  "\<not> positive_number (Num (PyFloat NaN)) \<and>
   add_transaction L now (Num (PyFloat NaN)) ''Food'' (PyStr ''expense'') None s =
     (Inr True,
      s\<lparr>transactions := transactions s @
           [\<lparr>amount = NaN, category = ''Food'', type = ''expense'', date = now\<rparr>],
        db := db s @
           [\<lparr>row_id = next_id (db s), row_amount = None, row_category = ''Food'',
             row_type = ''expense'', row_date = strftime now\<rparr>]\<rparr>)"
  by (simp add: add_transaction_def eval_Transaction)

text \<open>
  A kind that is no string: the \<^verbatim>\<open>AttributeError\<close> is not caught and the state stays
  as it was.
\<close>

lemma add_transaction_not_a_string:
  "positive_number a \<Longrightarrow> add_transaction L now a c PyNone d s = (Inl AttributeError, s)"
  by (cases a) (simp_all add: add_transaction_def Transaction_def not_le_zero)

section \<open>Totals and balance\<close>

lemma py_sum_eq: "py_sum xs = sum_list xs"
proof -
  have "foldl (+) a xs = a + sum_list xs" for a :: pyfloat
    by (induction xs arbitrary: a) (simp_all add: add.assoc)
  then show ?thesis
    by (simp add: py_sum_def)
qed



section \<open>Filtering by category\<close>

text \<open>
  Claim C7, as stated, fails at the empty string: the guard \<^verbatim>\<open>if category:\<close> takes it
  as no filter, and the call returns the whole list, here with a transaction whose
  category Food does not match the empty string.
\<close>

theorem filter_empty_category_counterexample:
  "get_transactions_by_category no_unicode (Some '''') mixed_case_state =
     [t_Food, t_Rent, t_food] \<and>
   lower no_unicode (category t_Food) \<noteq> lower no_unicode ''''"
proof -
  have l: "lower no_unicode ''Food'' = ''food''" "lower no_unicode '''' = ''''"
    by code_simp+
  show ?thesis
    by (simp add: get_transactions_by_category_def mixed_case_state_def t_Food_def l)
qed

text \<open>
  Claim C7, amended. For every category string that is not empty, the call returns
  exactly the transactions whose category is equal to it after \<^verbatim>\<open>str.lower\<close> on both,
  in their order in the list; for the empty string it returns the whole list.
\<close>

theorem get_transactions_by_category_filter:
  "get_transactions_by_category L (Some c) s =
     (if c = [] then transactions s
      else filter (\<lambda>t. lower L (category t) = lower L c) (transactions s))"
  by (simp add: get_transactions_by_category_def)

theorem get_transactions_by_category_filter_witness:
  "get_transactions_by_category no_unicode (Some ''FOOD'') mixed_case_state = [t_Food, t_food] \<and>
   get_transactions_by_category no_unicode (Some '''') mixed_case_state =
     [t_Food, t_Rent, t_food]"
proof -
  have l: "lower no_unicode ''FOOD'' = ''food''" "lower no_unicode ''Food'' = ''food''"
    "lower no_unicode ''food'' = ''food''" "lower no_unicode ''Rent'' = ''rent''"
    by code_simp+
  from get_transactions_by_category_filter [of no_unicode "''FOOD''" mixed_case_state]
    get_transactions_by_category_filter [of no_unicode "''''" mixed_case_state]
  show ?thesis
    by (simp add: mixed_case_state_def t_Food_def t_Rent_def t_food_def l)
qed

section \<open>Totals by category\<close>

lemma sum_dict_set:
  "sum_list (map snd (dict_set d k (dict_get d k 0 + a))) = sum_list (map snd d) + a"
proof -
  have "sum_list (map snd (AList.update k ((case map_of d k of None \<Rightarrow> 0 | Some v \<Rightarrow> v) + a) d))
        = sum_list (map snd d) + a"
    by (induction d) (auto simp: ac_simps)
  then show ?thesis
    by (simp add: dict_set_def dict_get_def)
qed

lemma map_of_dict_set: "map_of (dict_set d k v) = (map_of d)(k \<mapsto> v)"
  by (simp add: dict_set_def update_conv')

lemma distinct_dict_set: "distinct (map fst d) \<Longrightarrow> distinct (map fst (dict_set d k v))"
  by (simp add: dict_set_def distinct_update)

lemma loop_sums:
  "category_totals_loop ts e i = (e', i') \<Longrightarrow>
   sum_list (map snd e') =
     sum_list (map snd e) + sum_list (map amount (filter (\<lambda>t. type t = ''expense'') ts)) \<and>
   sum_list (map snd i') =
     sum_list (map snd i) + sum_list (map amount (filter (\<lambda>t. type t \<noteq> ''expense'') ts))"
proof (induction ts arbitrary: e i)
  case Nil
  then show ?case by simp
next
  case (Cons t ts)
  show ?case
  proof (cases "type t = ''expense''")
    case True
    with Cons.prems have
      "category_totals_loop ts (dict_set e (category t) (dict_get e (category t) 0 + amount t)) i
         = (e', i')"
      by simp
    from Cons.IH [OF this] True show ?thesis
      by (simp add: sum_dict_set add.assoc)
  next
    case False
    with Cons.prems have
      "category_totals_loop ts e (dict_set i (category t) (dict_get i (category t) 0 + amount t))
         = (e', i')"
      by simp
    from Cons.IH [OF this] False show ?thesis
      by (simp add: sum_dict_set add.assoc)
  qed
qed

lemma loop_lookup:
  "category_totals_loop ts e i = (e', i') \<Longrightarrow>
   map_of e' c =
     (if \<exists>t \<in> set ts. type t = ''expense'' \<and> category t = c
      then Some (dict_get e c 0 + total_of (\<lambda>t. type t = ''expense'') c ts)
      else map_of e c) \<and>
   map_of i' c =
     (if \<exists>t \<in> set ts. type t \<noteq> ''expense'' \<and> category t = c
      then Some (dict_get i c 0 + total_of (\<lambda>t. type t \<noteq> ''expense'') c ts)
      else map_of i c)"
proof (induction ts arbitrary: e i)
  case Nil
  then show ?case by simp
next
  case (Cons t ts)
  show ?case
  proof (cases "type t = ''expense''")
    case True
    with Cons.prems have
      "category_totals_loop ts (dict_set e (category t) (dict_get e (category t) 0 + amount t)) i
         = (e', i')"
      by simp
    from Cons.IH [OF this] True show ?thesis
      by (auto simp: map_of_dict_set dict_get_def total_of_def add.assoc)
  next
    case False
    with Cons.prems have
      "category_totals_loop ts e (dict_set i (category t) (dict_get i (category t) 0 + amount t))
         = (e', i')"
      by simp
    from Cons.IH [OF this] False show ?thesis
      by (auto simp: map_of_dict_set dict_get_def total_of_def add.assoc)
  qed
qed

lemma loop_distinct:
  "category_totals_loop ts e i = (e', i') \<Longrightarrow>
   distinct (map fst e) \<Longrightarrow> distinct (map fst i) \<Longrightarrow>
   distinct (map fst e') \<and> distinct (map fst i')"
proof (induction ts arbitrary: e i)
  case Nil
  then show ?case by simp
next
  case (Cons t ts)
  then show ?case
    by (cases "type t = ''expense''") (simp_all add: distinct_dict_set)
qed

text \<open>
  Claim C8, as stated, fails: the labels Food and food differ in letter case only, and
  the two expenses under them end in two entries of the expense mapping.
\<close>

theorem category_totals_case_counterexample:
  "lower no_unicode ''Food'' = lower no_unicode ''food'' \<and>
   get_category_totals mixed_case_state =
     ([(''Food'', Finite 10), (''Rent'', Finite 300), (''food'', Finite 5)], [])"
proof -
  have "lower no_unicode ''Food'' = lower no_unicode ''food''"
    by code_simp
  moreover have "get_category_totals mixed_case_state =
      ([(''Food'', Finite 10), (''Rent'', Finite 300), (''food'', Finite 5)], [])"
    by (simp add: get_category_totals_def mixed_case_state_def t_Food_def t_Rent_def t_food_def
        dict_set_def dict_get_def zero_pyfloat_def)
  ultimately show ?thesis
    by simp
qed

text \<open>
  Claim C8, amended. The totals group the transactions by the category label as it is
  written: the expense mapping has an entry for a label exactly when an expense carries
  that very label, holding the sum of the amounts of the expenses with that label; the
  income mapping does the same for the transactions that are no expenses; and no label
  has two entries in a mapping. Labels that differ in letter case are different keys.
\<close>

theorem category_totals_by_exact_label:
  "map_of (fst (get_category_totals s)) c =
     (if \<exists>t \<in> set (transactions s). type t = ''expense'' \<and> category t = c
      then Some (total_of (\<lambda>t. type t = ''expense'') c (transactions s)) else None) \<and>
   map_of (snd (get_category_totals s)) c =
     (if \<exists>t \<in> set (transactions s). type t \<noteq> ''expense'' \<and> category t = c
      then Some (total_of (\<lambda>t. type t \<noteq> ''expense'') c (transactions s)) else None) \<and>
   distinct (map fst (fst (get_category_totals s))) \<and>
   distinct (map fst (snd (get_category_totals s)))"
proof -
  obtain e i where ei: "category_totals_loop (transactions s) [] [] = (e, i)"
    by (cases "category_totals_loop (transactions s) [] []")
  from loop_lookup [OF ei, of c] loop_distinct [OF ei] ei show ?thesis
    by (simp add: get_category_totals_def dict_get_def)
qed

theorem category_totals_by_exact_label_witness:
  "map_of (fst (get_category_totals mixed_case_state)) ''Food'' = Some (Finite 10) \<and>
   map_of (fst (get_category_totals mixed_case_state)) ''food'' = Some (Finite 5) \<and>
   map_of (fst (get_category_totals mixed_case_state)) ''FOOD'' = None \<and>
   map_of (snd (get_category_totals mixed_case_state)) ''Food'' = None"
  using category_totals_by_exact_label [of mixed_case_state "''Food''"]
    category_totals_by_exact_label [of mixed_case_state "''food''"]
    category_totals_by_exact_label [of mixed_case_state "''FOOD''"]
  by (simp add: mixed_case_state_def t_Food_def t_Rent_def t_food_def total_of_def
      zero_pyfloat_def)

text \<open>
  The identity behind claim C10, with exact sums: when every transaction of the list
  has the kind expense or income, the values of the expense mapping add up to the total
  of the expenses and the values of the income mapping to the total income. The two
  sides add the same amounts in different orders, which is the same number when sums
  are exact; the source adds floats, where the order of the additions decides the
  rounding, and that is outside this model.
\<close>

lemma category_totals_sum:
  assumes "\<forall>t \<in> set (transactions s). type t = ''expense'' \<or> type t = ''income''"
  shows "py_sum (dict_values (fst (get_category_totals s))) = get_total_expenses s \<and>
         py_sum (dict_values (snd (get_category_totals s))) = get_total_income s"
proof -
  obtain e i where ei: "category_totals_loop (transactions s) [] [] = (e, i)"
    by (cases "category_totals_loop (transactions s) [] []")
  have f: "filter (\<lambda>t. type t \<noteq> ''expense'') (transactions s) =
           filter (\<lambda>t. type t = ''income'') (transactions s)"
    using assms by (intro filter_cong) auto
  from loop_sums [OF ei] f ei show ?thesis
    by (simp add: get_category_totals_def get_total_expenses_def get_total_income_def
        py_sum_eq dict_values_def)
qed

section \<open>Deleting a transaction\<close>

lemma load_rows_onto:
  "load_rows L now rs (ts @ us) =
     (fst (load_rows L now rs us), ts @ snd (load_rows L now rs us))"
proof (induction rs arbitrary: us)
  case Nil
  show ?case by simp
next
  case (Cons r rs)
  show ?case
    using Cons.IH [of "us @ [t]" for t]
    by (auto split: sum.splits)
qed

text \<open>
  What \<open>delete_transaction\<close> does to the list in memory: \<open>load_transactions\<close> appends to
  the list as it stands, so the list afterwards is the one before the call, followed by
  everything a new manager would load from the table.
\<close>

lemma delete_transaction_appends:
  "transactions (snd (delete_transaction L now i s)) =
     transactions s @
     transactions (snd (FinanceManager L now (db (snd (delete_transaction L now i s)))))"
  using load_rows_onto [of L now "filter (\<lambda>r. row_id r \<noteq> i) (db s)" "transactions s" "[]"]
  by (simp add: delete_transaction_def FinanceManager_def load_transactions_def split: prod.splits)

text \<open>
  Claim C4 on the code: deleting row 1 of the example ledger leaves one row in the
  table, and three transactions in memory, the deleted one among them and the remaining
  one twice, where a new manager on that table loads one.
\<close>

theorem delete_transaction_keeps_old_list:
  "delete_transaction L (PyDateTime 2024 1 8 12 0 0 0) 1 example_state =
     (Inr (),
      \<lparr>transactions =
         [\<lparr>amount = Finite 1200, category = ''Salary'', type = ''income'',
           date = PyDate 2024 1 5\<rparr>,
          \<lparr>amount = Finite 300, category = ''Rent'', type = ''expense'',
           date = PyDate 2024 1 6\<rparr>,
          \<lparr>amount = Finite 300, category = ''Rent'', type = ''expense'',
           date = PyDateTime 2024 1 6 0 0 0 0\<rparr>],
       db =
         [\<lparr>row_id = 2, row_amount = Some (Finite 300), row_category = ''Rent'',
           row_type = ''expense'', row_date = ''2024-01-06 00:00:00''\<rparr>],
       errors_shown = []\<rparr>) \<and>
   FinanceManager L (PyDateTime 2024 1 8 12 0 0 0)
     [\<lparr>row_id = 2, row_amount = Some (Finite 300), row_category = ''Rent'',
       row_type = ''expense'', row_date = ''2024-01-06 00:00:00''\<rparr>] =
     (Inr (),
      \<lparr>transactions =
         [\<lparr>amount = Finite 300, category = ''Rent'', type = ''expense'',
           date = PyDateTime 2024 1 6 0 0 0 0\<rparr>],
       db =
         [\<lparr>row_id = 2, row_amount = Some (Finite 300), row_category = ''Rent'',
           row_type = ''expense'', row_date = ''2024-01-06 00:00:00''\<rparr>],
       errors_shown = []\<rparr>)"
  by (simp add: delete_transaction_def FinanceManager_def load_transactions_def
      example_state_def strptime_examples eval_Transaction)

section \<open>Adding, then loading again\<close>

text \<open>
  Claim C5 on the code. The arguments are valid and the date is one a date object can
  hold, the first of January 999. \<open>add_transaction\<close> returns \<^verbatim>\<open>True\<close> and writes the
  date as \<^verbatim>\<open>999-01-01 00:00:00\<close>; \<^verbatim>\<open>%Y\<close> of \<^verbatim>\<open>strptime\<close> wants four digits, so a new
  manager on that table raises \<^verbatim>\<open>ValueError\<close> and loads nothing.
\<close>

theorem reload_fails_before_year_1000:
  "Transaction L now (Num (PyInt 10)) ''Food'' (PyStr ''expense'') (Some (PyDate 999 1 1)) =
     Inr t_999 \<and>
   valid_pydate (date t_999) \<and>
   add_transaction L now (Num (PyInt 10)) ''Food'' (PyStr ''expense'') (Some (PyDate 999 1 1))
     empty_state =
     (Inr True, \<lparr>transactions = [t_999], db = [row_999], errors_shown = []\<rparr>) \<and>
   FinanceManager L now' [row_999] =
     (Inl InvalidDate, \<lparr>transactions = [], db = [row_999], errors_shown = []\<rparr>)"
  by (simp add: add_transaction_def eval_Transaction t_999_def row_999_def empty_state_def
      next_id_def zero_pad_2 decimal_999 digit_char_simps valid_datetime_def days_in_month_def
      FinanceManager_def load_transactions_def strptime_examples)

section \<open>The text of a date, written and read back\<close>

lemma digit_of_digit_char: "k < 10 \<Longrightarrow> digit_of (digit_char k) = Some k"
  by (simp add: digit_of_def digit_char_def)

lemma not_space_digit_char: "k < 10 \<Longrightarrow> \<not> is_space (digit_char k)"
  by (simp add: is_space_def digit_char_def)

lemma two_or_one_zero_pad:
  assumes "n < 100" and "ok2 (n div 10) (n mod 10)"
  shows "two_or_one ok2 ok1 (zero_pad 2 n @ rest) = Some (n, rest)"
proof -
  have "n div 10 < 10" using assms(1) by simp
  then show ?thesis
    using assms by (simp add: zero_pad_2 digit_of_digit_char)
qed

lemma month_field_zero_pad:
  assumes "1 \<le> m" and "m \<le> 12"
  shows "month_field (zero_pad 2 m @ rest) = Some (m, rest)"
proof -
  have "(m div 10 = 1 \<and> m mod 10 \<le> 2) \<or> (m div 10 = 0 \<and> 1 \<le> m mod 10)"
    using assms by presburger
  with assms show ?thesis
    unfolding month_field_def by (intro two_or_one_zero_pad) simp_all
qed

lemma day_field_zero_pad:
  assumes "1 \<le> d" and "d \<le> 31"
  shows "day_field (zero_pad 2 d @ rest) = Some (d, rest)"
proof -
  have "(d div 10 = 3 \<and> d mod 10 \<le> 1) \<or> d div 10 = 1 \<or> d div 10 = 2 \<or>
        (d div 10 = 0 \<and> 1 \<le> d mod 10)"
    using assms by presburger
  with assms have
    "two_or_one (\<lambda>a b. (a = 3 \<and> b \<le> 1) \<or> a = 1 \<or> a = 2 \<or> (a = 0 \<and> 1 \<le> b)) (\<lambda>a. 1 \<le> a)
       (zero_pad 2 d @ rest) = Some (d, rest)"
    by (intro two_or_one_zero_pad) simp_all
  then show ?thesis
    by (simp add: day_field_def)
qed

lemma hour_field_zero_pad:
  assumes "H < 24"
  shows "hour_field (zero_pad 2 H @ rest) = Some (H, rest)"
proof -
  have "(H div 10 = 2 \<and> H mod 10 \<le> 3) \<or> H div 10 \<le> 1"
    using assms by presburger
  with assms show ?thesis
    unfolding hour_field_def by (intro two_or_one_zero_pad) simp_all
qed

lemma minute_field_zero_pad:
  assumes "M < 60"
  shows "minute_field (zero_pad 2 M @ rest) = Some (M, rest)"
proof -
  have "M div 10 \<le> 5"
    using assms by presburger
  with assms show ?thesis
    unfolding minute_field_def by (intro two_or_one_zero_pad) simp_all
qed

lemma second_field_zero_pad:
  assumes "S < 60"
  shows "second_field (zero_pad 2 S @ rest) = Some (S, rest)"
proof -
  have "(S div 10 = 6 \<and> S mod 10 \<le> 1) \<or> S div 10 \<le> 5"
    using assms by presburger
  with assms show ?thesis
    unfolding second_field_def by (intro two_or_one_zero_pad) simp_all
qed

lemma dropWhile_zero_pad: "dropWhile is_space (zero_pad 2 H @ rest) = zero_pad 2 H @ rest"
  by (simp add: zero_pad_2 not_space_digit_char)

lemma is_space_blank: "is_space CHR '' ''"
  by (simp add: is_space_def)

lemma year_field_decimal:
  assumes "1000 \<le> y" and "y \<le> 9999"
  shows "year_field (decimal y @ rest) = Some (y, rest)"
proof -
  define a where "a = y div 10"
  define b where "b = a div 10"
  define c where "c = b div 10"
  have 1: "y = 10 * a + y mod 10" unfolding a_def by simp
  have 2: "a = 10 * b + a mod 10" unfolding b_def by simp
  have 3: "b = 10 * c + b mod 10" unfolding c_def by simp
  have m: "y mod 10 < 10" "a mod 10 < 10" "b mod 10 < 10" by simp_all
  have d: "c < 10" using 1 2 3 m assms by linarith
  have e: "1000 * c + 100 * (b mod 10) + 10 * (a mod 10) + y mod 10 = y"
    using 1 2 3 by linarith
  have dec: "decimal y = [digit_char c, digit_char (b mod 10), digit_char (a mod 10),
      digit_char (y mod 10)]"
    using decimal_4 [OF assms] by (simp only: a_def b_def c_def)
  have "year_field ([digit_char c, digit_char (b mod 10), digit_char (a mod 10),
      digit_char (y mod 10)] @ rest) =
      Some (1000 * c + 100 * (b mod 10) + 10 * (a mod 10) + y mod 10, rest)"
    by (simp add: digit_of_digit_char d)
  then show ?thesis
    by (simp only: dec e)
qed


lemma parse_datetime_fields:
  assumes v: "valid_datetime y m d H M S 0" and y: "1000 \<le> y"
  shows "parse_datetime (decimal y @ ''-'' @ zero_pad 2 m @ ''-'' @ zero_pad 2 d @ '' '' @
           zero_pad 2 H @ '':'' @ zero_pad 2 M @ '':'' @ zero_pad 2 S) =
         Some (PyDateTime y m d H M S 0)"
proof -
  from v have b: "y \<le> 9999" "1 \<le> m" "m \<le> 12" "1 \<le> d" "d \<le> 31" "H < 24" "M < 60" "S < 60"
    by (auto simp: valid_datetime_def days_in_month_def split: if_splits)
  have s: "second_field (zero_pad 2 S) = Some (S, [])"
    using second_field_zero_pad [OF b(8), of "[]"] by simp
  show ?thesis
    unfolding parse_datetime_def
    by (simp add: year_field_decimal [OF y b(1)] month_field_zero_pad [OF b(2,3)]
        day_field_zero_pad [OF b(4,5)] hour_field_zero_pad [OF b(6)]
        minute_field_zero_pad [OF b(7)] s dropWhile_zero_pad is_space_blank v
        del: zero_pad.simps)
qed

lemma valid_datetime_us: "valid_datetime y m d H M S us \<Longrightarrow> valid_datetime y m d H M S 0"
  by (simp add: valid_datetime_def)

lemma strptime_strftime:
  assumes "valid_pydate dt" and "1000 \<le> year dt"
  shows "strptime (strftime dt) = Inr (stored_precision dt)"
proof (cases dt)
  case (PyDate y m d)
  with assms have "valid_datetime y m d 0 0 0 0" "1000 \<le> y"
    by simp_all
  from parse_datetime_fields [OF this] PyDate show ?thesis
    by (simp add: strptime_def del: zero_pad.simps)
next
  case (PyDateTime y m d H M S us)
  with assms have "valid_datetime y m d H M S 0" "1000 \<le> y"
    by (simp_all add: valid_datetime_us)
  from parse_datetime_fields [OF this] PyDateTime show ?thesis
    by (simp add: strptime_def del: zero_pad.simps)
qed

lemma strftime_stored_precision: "strftime (stored_precision dt) = strftime dt"
  by (cases dt) simp_all

section \<open>Where adding, then loading again, works\<close>

lemma bit_length_pos: "0 < n \<Longrightarrow> 0 < bit_length n"
  by (simp add: bit_length.simps [of n])

lemma bit_length_lower: "0 < n \<Longrightarrow> 2 ^ (bit_length n - 1) \<le> n"
proof (induction n rule: bit_length.induct)
  case (1 n)
  show ?case
  proof (cases "n div 2 = 0")
    case True
    with 1 have "n = 1" by presburger
    then show ?thesis
      by (simp add: bit_length.simps [of "Suc 0"] bit_length.simps [of 0])
  next
    case False
    then have p: "0 < n div 2" by simp
    with 1 have ih: "2 ^ (bit_length (n div 2) - 1) \<le> n div 2" by simp
    from bit_length_pos [OF p] have "2 ^ bit_length (n div 2) = (2::nat) * 2 ^ (bit_length (n div 2) - 1)"
      by (cases "bit_length (n div 2)") simp_all
    with ih have "2 ^ bit_length (n div 2) \<le> 2 * (n div 2)" by simp
    also have "\<dots> \<le> n" by simp
    finally show ?thesis
      using 1(2) by (simp add: bit_length.simps [of n])
  qed
qed

lemma round_to_53_bits_pos: "0 < n \<Longrightarrow> 0 < round_to_53_bits n"
proof -
  assume n: "0 < n"
  show ?thesis
  proof (cases "bit_length n \<le> 53")
    case True
    with n show ?thesis by (simp add: round_to_53_bits_def)
  next
    case False
    let ?sh = "bit_length n - 53"
    have "(2::nat) ^ ?sh \<le> 2 ^ (bit_length n - 1)"
      by (rule power_increasing) simp_all
    also have "\<dots> \<le> n" by (rule bit_length_lower [OF n])
    finally have "0 < n div 2 ^ ?sh"
      by (simp add: div_greater_zero_iff)
    with False show ?thesis
      by (simp add: round_to_53_bits_def Let_def)
  qed
qed

lemma py_float_positive:
  assumes "positive_number (Num n)" and "py_float n = Inr x"
  shows "x \<noteq> NaN \<and> \<not> float_le_zero x"
proof (cases n)
  case (PyInt i)
  with assms have i: "0 < i" by simp
  then have "0 < round_to_53_bits (nat \<bar>i\<bar>)"
    by (intro round_to_53_bits_pos) simp
  with i assms PyInt show ?thesis
    by (auto simp: float_of_int_def split: if_splits)
next
  case (PyFloat y)
  with assms show ?thesis by (cases y) auto
next
  case (PyBool b)
  with assms show ?thesis by auto
qed

lemma Transaction_InrD:
  assumes "Transaction L now a c k dt = Inr t"
  shows "\<exists>n. a = Num n \<and> \<not> le_zero n \<and> py_float n = Inr (amount t)"
    and "type t = ''expense'' \<or> type t = ''income''"
  using assms
  by (auto simp: Transaction_def valid_types_def split: if_splits pyval.splits sum.splits)

lemma Transaction_reload:
  assumes "x \<noteq> NaN" and "\<not> float_le_zero x" and "ty = ''expense'' \<or> ty = ''income''"
  shows "Transaction L now (fetched_amount (sql_real x)) c (PyStr ty) (Some d) =
           Inr \<lparr>amount = x, category = c, type = ty, date = d\<rparr>"
  using assms by (cases x) (auto simp: Transaction_def valid_types_def lower_income lower_expense)

lemma load_rows_append:
  "load_rows L now (rs @ rs') ts =
     (case load_rows L now rs ts of
        (Inl e, ts') \<Rightarrow> (Inl e, ts')
      | (Inr u, ts') \<Rightarrow> load_rows L now rs' ts')"
  by (induction rs arbitrary: ts) (auto split: sum.splits)

text \<open>
  Where the round trip holds: for a positive number as the amount and a date from the
  year 1000 on, a new manager on the table that \<open>add_transaction\<close> leaves loads the
  transactions of before and one more, which is \<open>t\<close> with its date at whole seconds.
\<close>

lemma add_then_reload:
  assumes ok: "Transaction L now amt cat k dt = Inr t"
    and pos: "positive_number amt"
    and vd: "valid_pydate (date t)"
    and y: "1000 \<le> year (date t)"
    and old: "FinanceManager L now' (db s) = (Inr (), s1)"
  shows "fst (add_transaction L now amt cat k dt s) = Inr True \<and>
         FinanceManager L now' (db (snd (add_transaction L now amt cat k dt s))) =
           (Inr (),
            s1\<lparr>transactions := transactions s1 @ [t\<lparr>date := stored_precision (date t)\<rparr>],
               db := db (snd (add_transaction L now amt cat k dt s))\<rparr>) \<and>
         strftime (stored_precision (date t)) = strftime (date t)"
proof -
  let ?r = "\<lparr>row_id = next_id (db s), row_amount = sql_real (amount t),
            row_category = category t, row_type = type t, row_date = strftime (date t)\<rparr>"
  let ?t' = "t\<lparr>date := stored_precision (date t)\<rparr>"
  have add: "add_transaction L now amt cat k dt s =
      (Inr True, s\<lparr>transactions := transactions s @ [t], db := db s @ [?r]\<rparr>)"
    using ok by (simp add: add_transaction_def)
  obtain ts where ts: "load_rows L now' (db s) [] = (Inr (), ts)"
    and s1: "s1 = \<lparr>transactions = ts, db = db s, errors_shown = []\<rparr>"
    using old by (auto simp: FinanceManager_def load_transactions_def split: prod.splits)
  from Transaction_InrD(1) [OF ok] obtain n where n: "amt = Num n" "py_float n = Inr (amount t)"
    by blast
  from py_float_positive [of n "amount t"] pos n
  have x: "amount t \<noteq> NaN" "\<not> float_le_zero (amount t)"
    by simp_all
  have re: "Transaction L now' (fetched_amount (sql_real (amount t))) (category t)
      (PyStr (type t)) (Some (stored_precision (date t))) = Inr ?t'"
    using Transaction_reload [OF x Transaction_InrD(2) [OF ok]] by simp
  have one: "load_rows L now' [?r] ts = (Inr (), ts @ [?t'])"
    by (simp add: re strptime_strftime [OF vd y])
  have "load_rows L now' (db s @ [?r]) [] = load_rows L now' [?r] ts"
    by (simp add: load_rows_append ts del: load_rows.simps)
  with one have "load_rows L now' (db s @ [?r]) [] = (Inr (), ts @ [?t'])"
    by (simp only:)
  then show ?thesis
    by (simp add: add s1 FinanceManager_def load_transactions_def strftime_stored_precision)
qed

end
